theory Spec2Isabelle
  imports Main
begin

section \<open>Python values\<close>

text \<open>
  The program is Python. Strings are ASCII character lists. Console output (\<open>print\<close>) has
  no effect on the state and is left out.
\<close>

datatype py_error =
    ValueError
  | TypeError
  | OverflowError
  | KeyError string
  | IllTyped string

text \<open>
  \<open>ValueError\<close>, \<open>TypeError\<close>, \<open>OverflowError\<close> and \<open>KeyError\<close> are the Python exceptions of
  the same name. \<open>IllTyped\<close> marks a document field whose JSON type is not the one the
  typed records below can hold (Python would store such a value unchanged).
\<close>

subsection \<open>Floats\<close>

text \<open>
  A Python float is an IEEE 754 binary64 number. \<open>Finite m e\<close> is the number
  \<open>m * 2^e\<close>; the operations below return it with \<open>m\<close> odd, or as \<open>Finite 0 0\<close>. The two
  zeros are one value here: the program compares and adds floats, which never tells
  \<open>-0.0\<close> from \<open>0.0\<close>, and the texts that would show the sign are not rendered.
\<close>

datatype pyfloat = Finite int int | PosInf | NegInf | NaN

text \<open>The number of binary digits of a positive integer.\<close>

function bitlen :: "int \<Rightarrow> nat" where
  "bitlen n = (if n \<le> 0 then 0 else Suc (bitlen (n div 2)))"
  by pat_completeness auto
termination
  by (relation "measure nat") auto

declare bitlen.simps [simp del]

text \<open>\<open>shl m k\<close> is \<open>m * 2^k\<close> for \<open>k \<ge> 0\<close> and \<open>m\<close> for \<open>k < 0\<close>.\<close>

definition shl :: "int \<Rightarrow> int \<Rightarrow> int" where
  "shl m k = m * 2 ^ nat k"

function trim :: "int \<Rightarrow> int \<Rightarrow> pyfloat" where
  "trim m e =
     (if m = 0 then Finite 0 0
      else if even m then trim (m div 2) (e + 1)
      else Finite m e)"
  by pat_completeness auto
termination
  by (relation "measure (\<lambda>(m, e). nat \<bar>m\<bar>)") auto

declare trim.simps [simp del]

text \<open>
  The quotient \<open>q\<close> of a division by \<open>d\<close> with remainder \<open>r\<close>, rounded to nearest, a tie
  going to the even neighbour.
\<close>

definition nearest_even :: "int \<Rightarrow> int \<Rightarrow> int \<Rightarrow> int" where
  "nearest_even q r d =
     (if 2 * r < d then q
      else if d < 2 * r then q + 1
      else if even q then q else q + 1)"

definition round_half_even :: "int \<Rightarrow> int \<Rightarrow> int" where
  "round_half_even n d = nearest_even (n div d) (n mod d) d"

text \<open>
  \<open>round_ratio a b\<close> is the double nearest to \<open>a / b\<close>, for \<open>b > 0\<close>. With \<open>e0\<close> the
  difference of the bit lengths, the binary exponent of \<open>|a| / b\<close> is \<open>e0\<close> or \<open>e0 - 1\<close>.
  The last binary place kept is \<open>s\<close>: 52 places below the exponent, and never below
  \<open>-1074\<close> (subnormal numbers). A result of \<open>2^1024\<close> or more is an infinity.
\<close>

definition binary_exponent :: "int \<Rightarrow> int \<Rightarrow> int \<Rightarrow> int" where
  "binary_exponent a b e0 = (if shl b e0 \<le> shl \<bar>a\<bar> (- e0) then e0 else e0 - 1)"

definition pack :: "int \<Rightarrow> int \<Rightarrow> int \<Rightarrow> pyfloat" where
  "pack a n s =
     (if shl 1 (1024 - s) \<le> \<bar>n\<bar> then (if 0 < a then PosInf else NegInf)
      else trim n s)"

definition round_at :: "int \<Rightarrow> int \<Rightarrow> int \<Rightarrow> pyfloat" where
  "round_at a b s = pack a (round_half_even (shl a (- s)) (shl b s)) s"

definition round_ratio :: "int \<Rightarrow> int \<Rightarrow> pyfloat" where
  "round_ratio a b =
     (if a = 0 then Finite 0 0
      else round_at a b
             (max (binary_exponent a b (int (bitlen \<bar>a\<bar>) - int (bitlen b))) (- 1022) - 52))"

text \<open>The double nearest to \<open>m * 2^e\<close>, and the double nearest to \<open>n * 10^k\<close>.\<close>

definition round_dyadic :: "int \<Rightarrow> int \<Rightarrow> pyfloat" where
  "round_dyadic m e = (if 0 \<le> e then round_ratio (shl m e) 1 else round_ratio m (shl 1 (- e)))"

definition round_decimal :: "int \<Rightarrow> int \<Rightarrow> pyfloat" where
  "round_decimal n k =
     (if 0 \<le> k then round_ratio (n * 10 ^ nat k) 1 else round_ratio n (10 ^ nat (- k)))"

fun fneg :: "pyfloat \<Rightarrow> pyfloat" where
  "fneg (Finite m e) = Finite (- m) e"
| "fneg PosInf = NegInf"
| "fneg NegInf = PosInf"
| "fneg NaN = NaN"

text \<open>\<open>x + y\<close>: the exact sum of two finite numbers, rounded.\<close>

fun fadd :: "pyfloat \<Rightarrow> pyfloat \<Rightarrow> pyfloat" where
  "fadd NaN y = NaN"
| "fadd x NaN = NaN"
| "fadd PosInf NegInf = NaN"
| "fadd NegInf PosInf = NaN"
| "fadd PosInf y = PosInf"
| "fadd NegInf y = NegInf"
| "fadd x PosInf = PosInf"
| "fadd x NegInf = NegInf"
| "fadd (Finite m1 e1) (Finite m2 e2) =
     round_dyadic (shl m1 (e1 - min e1 e2) + shl m2 (e2 - min e1 e2)) (min e1 e2)"

definition fsub :: "pyfloat \<Rightarrow> pyfloat \<Rightarrow> pyfloat" where
  "fsub x y = fadd x (fneg y)"

fun fsign :: "pyfloat \<Rightarrow> int" where
  "fsign (Finite m e) = sgn m"
| "fsign PosInf = 1"
| "fsign NegInf = - 1"
| "fsign NaN = 0"

text \<open>\<open>x * y\<close>; an infinity times zero is not a number.\<close>

fun fmul :: "pyfloat \<Rightarrow> pyfloat \<Rightarrow> pyfloat" where
  "fmul NaN y = NaN"
| "fmul x NaN = NaN"
| "fmul (Finite m1 e1) (Finite m2 e2) = round_dyadic (m1 * m2) (e1 + e2)"
| "fmul x y =
     (if fsign x * fsign y = 0 then NaN
      else if 0 < fsign x * fsign y then PosInf else NegInf)"

text \<open>\<open>x <= y\<close>, \<open>x >= y\<close>, \<open>x < y\<close> and \<open>x == y\<close>; every comparison with \<open>nan\<close> is false.\<close>

fun fle :: "pyfloat \<Rightarrow> pyfloat \<Rightarrow> bool" where
  "fle NaN y = False"
| "fle x NaN = False"
| "fle NegInf y = True"
| "fle x PosInf = True"
| "fle PosInf y = False"
| "fle x NegInf = False"
| "fle (Finite m1 e1) (Finite m2 e2) =
     (shl m1 (e1 - min e1 e2) \<le> shl m2 (e2 - min e1 e2))"

definition fge :: "pyfloat \<Rightarrow> pyfloat \<Rightarrow> bool" where
  "fge x y = fle y x"

definition flt :: "pyfloat \<Rightarrow> pyfloat \<Rightarrow> bool" where
  "flt x y = (fle x y \<and> \<not> fle y x)"

definition feq :: "pyfloat \<Rightarrow> pyfloat \<Rightarrow> bool" where
  "feq x y = (fle x y \<and> fle y x)"

subsection \<open>Values and the builtin \<open>float\<close>\<close>

datatype pyval =
    PyNone
  | PyInt int
  | PyFloat pyfloat
  | PyStr string
  | PyList "pyval list"
  | PyDict "(string \<times> pyval) list"

definition is_digit :: "char \<Rightarrow> bool" where
  "is_digit c = (48 \<le> (of_char c :: nat) \<and> (of_char c :: nat) \<le> 57)"

definition digit_val :: "char \<Rightarrow> nat" where
  "digit_val c = of_char c - 48"

text \<open>The blanks that \<open>float\<close> drops around an ASCII text: tab to carriage return, and space.\<close>

definition is_space :: "char \<Rightarrow> bool" where
  "is_space c = ((9 \<le> (of_char c :: nat) \<and> (of_char c :: nat) \<le> 13) \<or> (of_char c :: nat) = 32)"

definition lower_char :: "char \<Rightarrow> char" where
  "lower_char c =
     (case map_of (zip ''ABCDEFGHIJKLMNOPQRSTUVWXYZ'' ''abcdefghijklmnopqrstuvwxyz'') c of
        Some l \<Rightarrow> l
      | None \<Rightarrow> c)"

definition strip :: "string \<Rightarrow> string" where
  "strip s = rev (dropWhile is_space (rev (dropWhile is_space s)))"

text \<open>
  \<open>digits_tail\<close> reads the longest run \<open>digit (["_"] digit)*\<close> continuation: digits, with
  single underscores allowed between two digits. It returns the digit values and the
  unread rest.
\<close>

fun digits_tail :: "string \<Rightarrow> nat list \<times> string" where
  "digits_tail [] = ([], [])"
| "digits_tail [c] = (if is_digit c then ([digit_val c], []) else ([], [c]))"
| "digits_tail (c # d # cs) =
     (if is_digit c then
        (case digits_tail (d # cs) of (ds, r) \<Rightarrow> (digit_val c # ds, r))
      else if c = CHR ''_'' \<and> is_digit d then digits_tail (d # cs)
      else ([], c # d # cs))"

definition digitpart :: "string \<Rightarrow> (nat list \<times> string) option" where
  "digitpart s = (case s of [] \<Rightarrow> None
                  | c # cs \<Rightarrow> if is_digit c then Some (digits_tail s) else None)"

definition int_of_digits :: "nat list \<Rightarrow> int" where
  "int_of_digits ds = foldl (\<lambda>a d. 10 * a + int d) 0 ds"

text \<open>
  \<open>number ::= [digitpart] "." digitpart | digitpart ["."]\<close>. The result \<open>(n, k)\<close> stands
  for \<open>n * 10^k\<close>: all the digits read as one integer, and minus the number of digits
  after the point.
\<close>

definition number :: "string \<Rightarrow> ((int \<times> int) \<times> string) option" where
  "number s =
     (case digitpart s of
        Some (ds, r) \<Rightarrow>
          (case r of
             c # r' \<Rightarrow>
               if c = CHR ''.'' then
                 (case digitpart r' of
                    Some (fs, r'') \<Rightarrow> Some ((int_of_digits (ds @ fs), - int (length fs)), r'')
                  | None \<Rightarrow> Some ((int_of_digits ds, 0), r'))
               else Some ((int_of_digits ds, 0), r)
           | [] \<Rightarrow> Some ((int_of_digits ds, 0), r))
      | None \<Rightarrow>
          (case s of
             c # r' \<Rightarrow>
               if c = CHR ''.'' then
                 (case digitpart r' of
                    Some (fs, r'') \<Rightarrow> Some ((int_of_digits fs, - int (length fs)), r'')
                  | None \<Rightarrow> None)
               else None
           | [] \<Rightarrow> None))"

text \<open>\<open>exponent ::= ("e" | "E") [sign] digitpart\<close>: the power of ten it stands for.\<close>

definition exponent :: "string \<Rightarrow> (int \<times> string) option" where
  "exponent s =
     (case s of
        [] \<Rightarrow> None
      | c # r \<Rightarrow>
          if c = CHR ''e'' \<or> c = CHR ''E'' then
            (case r of
               [] \<Rightarrow> None
             | g # r' \<Rightarrow>
                 if g = CHR ''-'' then
                   (case digitpart r' of
                      Some (es, r'') \<Rightarrow> Some (- int_of_digits es, r'')
                    | None \<Rightarrow> None)
                 else if g = CHR ''+'' then
                   (case digitpart r' of
                      Some (es, r'') \<Rightarrow> Some (int_of_digits es, r'')
                    | None \<Rightarrow> None)
                 else
                   (case digitpart r of
                      Some (es, r'') \<Rightarrow> Some (int_of_digits es, r'')
                    | None \<Rightarrow> None))
          else None)"

text \<open>
  The unsigned part of a float text: \<open>inf\<close>, \<open>infinity\<close> or \<open>nan\<close> in any case of letters,
  or a decimal number, which gives the nearest double (an infinity when it is too
  large, zero when it is too small).
\<close>

definition absfloatvalue :: "string \<Rightarrow> py_error + pyfloat" where
  "absfloatvalue s =
     (if map lower_char s \<in> set [''inf'', ''infinity''] then Inr PosInf
      else if map lower_char s = ''nan'' then Inr NaN
      else
        (case number s of
           None \<Rightarrow> Inl ValueError
         | Some (nk, r) \<Rightarrow>
             if r = [] then Inr (round_decimal (fst nk) (snd nk))
             else
               (case exponent r of
                  Some (x, r') \<Rightarrow>
                    if r' = [] then Inr (round_decimal (fst nk) (snd nk + x))
                    else Inl ValueError
                | None \<Rightarrow> Inl ValueError)))"

text \<open>
  \<open>float(s)\<close> for a string: surrounding blanks are dropped, then
  \<open>[sign] (floatnumber | infinity | nan)\<close> must match the whole text, else \<open>ValueError\<close>.
\<close>

definition float_str :: "string \<Rightarrow> py_error + pyfloat" where
  "float_str s =
     (case strip s of
        [] \<Rightarrow> Inl ValueError
      | c # r \<Rightarrow>
          if c = CHR ''-'' then
            (case absfloatvalue r of Inl e \<Rightarrow> Inl e | Inr v \<Rightarrow> Inr (fneg v))
          else if c = CHR ''+'' then absfloatvalue r
          else absfloatvalue (c # r))"

text \<open>\<open>float(i)\<close> for an int: the nearest double, or \<open>OverflowError\<close> when there is none.\<close>

definition float_int :: "int \<Rightarrow> py_error + pyfloat" where
  "float_int i =
     (case round_ratio i 1 of
        PosInf \<Rightarrow> Inl OverflowError
      | NegInf \<Rightarrow> Inl OverflowError
      | x \<Rightarrow> Inr x)"

text \<open>\<open>float(x)\<close> for any value: a float is returned as it is, the rest raise.\<close>

fun py_float :: "pyval \<Rightarrow> py_error + pyfloat" where
  "py_float (PyFloat x) = Inr x"
| "py_float (PyInt i) = float_int i"
| "py_float (PyStr s) = float_str s"
| "py_float _ = Inl TypeError"

section \<open>Transaction, SavingsGoal, Budget\<close>

record transaction =
  transaction_id :: int
  date :: string
  amount :: pyfloat
  category :: string
  type :: string
  description :: string

text \<open>\<open>Transaction.__init__\<close>: the amount goes through \<open>float\<close>, the rest is stored as given.\<close>

definition Transaction ::
  "int \<Rightarrow> string \<Rightarrow> pyval \<Rightarrow> string \<Rightarrow> string \<Rightarrow> string \<Rightarrow> py_error + transaction" where
  "Transaction tid d a c ty ds =
     (case py_float a of
        Inl e \<Rightarrow> Inl e
      | Inr x \<Rightarrow> Inr \<lparr>transaction_id = tid, date = d, amount = x, category = c,
                      type = ty, description = ds\<rparr>)"

record savings_goal =
  goal_id :: int
  name :: string
  target_amount :: pyfloat
  current_amount :: pyfloat

definition SavingsGoal :: "int \<Rightarrow> string \<Rightarrow> pyval \<Rightarrow> pyval \<Rightarrow> py_error + savings_goal" where
  "SavingsGoal gid n t c =
     (case py_float t of
        Inl e \<Rightarrow> Inl e
      | Inr tv \<Rightarrow>
          (case py_float c of
             Inl e \<Rightarrow> Inl e
           | Inr cv \<Rightarrow> Inr \<lparr>goal_id = gid, name = n, target_amount = tv,
                            current_amount = cv\<rparr>))"

text \<open>\<open>SavingsGoal.add_funds\<close>: \<open>self.current_amount += float(amount)\<close>.\<close>

definition add_funds :: "pyval \<Rightarrow> savings_goal \<Rightarrow> py_error + savings_goal" where
  "add_funds a g =
     (case py_float a of
        Inl e \<Rightarrow> Inl e
      | Inr x \<Rightarrow> Inr (g\<lparr>current_amount := fadd (current_amount g) x\<rparr>))"

record budget =
  budget_id :: int
  budget_category :: string
  limit :: pyfloat
  period :: string

definition Budget :: "int \<Rightarrow> string \<Rightarrow> pyval \<Rightarrow> string \<Rightarrow> py_error + budget" where
  "Budget bid c l p =
     (case py_float l of
        Inl e \<Rightarrow> Inl e
      | Inr lv \<Rightarrow> Inr \<lparr>budget_id = bid, budget_category = c, limit = lv,
       period = p\<rparr>)"

section \<open>User\<close>

record user =
  username :: string
  password :: string
  transactions :: "transaction list"
  savings_goals :: "savings_goal list"
  budgets :: "budget list"
  categories :: "string list"

definition default_categories :: "string list" where
  "default_categories =
     [''Groceries'', ''Bills'', ''Entertainment'', ''Transportation'', ''Housing'', ''Other'']"

text \<open>\<open>User.__init__\<close>; \<open>transactions or []\<close> is the list itself, empty or not.\<close>

definition User ::
  "string \<Rightarrow> string \<Rightarrow> transaction list \<Rightarrow> savings_goal list \<Rightarrow> budget list \<Rightarrow> user" where
  "User un pw ts gs bs =
     \<lparr>username = un, password = pw, transactions = ts, savings_goals = gs, budgets = bs,
      categories = default_categories\<rparr>"

definition authenticate :: "user \<Rightarrow> string \<Rightarrow> bool" where
  "authenticate u pw = (password u = pw)"

text \<open>
  Python's \<open>sum\<close> starts at the int 0 and adds the items from the left, each addition
  rounded. (CPython from 3.12 on also carries a correction for the rounding errors;
  nothing below depends on how the partial sums are rounded.)
\<close>

definition py_sum :: "pyfloat list \<Rightarrow> pyfloat" where
  "py_sum xs = foldl fadd (Finite 0 0) xs"

definition get_total_income :: "user \<Rightarrow> pyfloat" where
  "get_total_income u =
     py_sum (map amount (filter (\<lambda>t. type t = ''income'') (transactions u)))"

definition get_total_expenses :: "user \<Rightarrow> pyfloat" where
  "get_total_expenses u =
     py_sum (map amount (filter (\<lambda>t. type t = ''expense'') (transactions u)))"

definition get_balance :: "user \<Rightarrow> pyfloat" where
  "get_balance u =
     fsub (py_sum (map amount (filter (\<lambda>t. type t = ''income'') (transactions u))))
          (py_sum (map amount (filter (\<lambda>t. type t = ''expense'') (transactions u))))"

text \<open>
  A Python dict keeps its keys in insertion order; it is an association list with
  distinct keys. \<open>dict_update\<close> is \<open>d[k] = f(d[k])\<close> for a key that is present.
\<close>

definition dict_update :: "('k \<times> 'v) list \<Rightarrow> 'k \<Rightarrow> ('v \<Rightarrow> 'v) \<Rightarrow> ('k \<times> 'v) list" where
  "dict_update d k f = map (\<lambda>(k', v). if k' = k then (k', f v) else (k', v)) d"

definition expenses_step ::
  "(string \<times> pyfloat) list \<Rightarrow> transaction \<Rightarrow> (string \<times> pyfloat) list" where
  "expenses_step d t =
     (if type t = ''expense'' then
        dict_update
          (if map_of d (category t) = None then d @ [(category t, Finite 0 0)] else d)
          (category t) (\<lambda>v. fadd v (amount t))
      else d)"

definition get_expenses_by_category :: "user \<Rightarrow> (string \<times> pyfloat) list" where
  "get_expenses_by_category u = foldl expenses_step [] (transactions u)"

text \<open>
  The two messages of \<open>check_budget_notifications\<close>. Each stands for the formatted
  text and carries what the text shows: the category, the limit and the spending.
\<close>

datatype notification =
    Budget_Alert string pyfloat pyfloat
  | Budget_Warning string pyfloat pyfloat

text \<open>The float literal \<open>0.8\<close> is the double nearest to 8/10.\<close>

definition notify_step ::
  "(string \<times> pyfloat) list \<Rightarrow> notification list \<Rightarrow> budget \<Rightarrow> notification list" where
  "notify_step e ns b =
     (case map_of e (budget_category b) of
        None \<Rightarrow> ns
      | Some current_spending \<Rightarrow>
          if fge current_spending (limit b) then
            ns @ [Budget_Alert (budget_category b) (limit b) current_spending]
          else if fge current_spending (fmul (limit b) (round_decimal 8 (- 1))) then
            ns @ [Budget_Warning (budget_category b) (limit b) current_spending]
          else ns)"

definition check_budget_notifications :: "user \<Rightarrow> notification list" where
  "check_budget_notifications u =
     foldl (notify_step (get_expenses_by_category u)) [] (budgets u)"

subsection \<open>The decorators and \<open>add_transaction\<close>\<close>

text \<open>
  \<open>add_transaction\<close> is called with positional arguments only, all of them texts read
  from the console. Inside the decorators \<open>args[0]\<close> is \<open>self\<close>, so \<open>args[1]\<close> is the
  date, \<open>args[2]\<close> the amount, \<open>args[3]\<close> the category, \<open>args[4]\<close> the type and
  \<open>args[5]\<close> the description; \<open>kwargs\<close> is empty.
\<close>

record args =
  arg1 :: string
  arg2 :: string
  arg3 :: string
  arg4 :: string
  arg5 :: string

text \<open>
  \<open>validate_amount\<close>: \<open>kwargs.get('amount') or args[1]\<close> is \<open>args[1]\<close>; only \<open>ValueError\<close> is
  caught. \<open>amount <= 0\<close> compares the float with the int 0.
\<close>

definition validate_amount ::
  "(args \<Rightarrow> user \<Rightarrow> py_error + (transaction option \<times> user))
   \<Rightarrow> args \<Rightarrow> user \<Rightarrow> py_error + (transaction option \<times> user)" where
  "validate_amount func a u =
     (case py_float (PyStr (arg1 a)) of
        Inl ValueError \<Rightarrow> Inr (None, u)
      | Inl e \<Rightarrow> Inl e
      | Inr x \<Rightarrow> if fle x (Finite 0 0) then Inr (None, u) else func a u)"

record datetime =
  year :: nat
  month :: nat
  day :: nat
  hour :: nat
  minute :: nat
  second :: nat

definition digit_char :: "nat \<Rightarrow> char" where
  "digit_char n = ''0123456789'' ! (n mod 10)"

definition pad2 :: "nat \<Rightarrow> string" where
  "pad2 n = [digit_char (n div 10), digit_char n]"

definition pad4 :: "nat \<Rightarrow> string" where
  "pad4 n = [digit_char (n div 1000), digit_char (n div 100), digit_char (n div 10), digit_char n]"

text \<open>\<open>strftime("%Y-%m-%d %H:%M:%S")\<close>, for a year of four digits.\<close>

definition strftime :: "datetime \<Rightarrow> string" where
  "strftime dt =
     pad4 (year dt) @ ''-'' @ pad2 (month dt) @ ''-'' @ pad2 (day dt) @ '' ''
     @ pad2 (hour dt) @ '':'' @ pad2 (minute dt) @ '':'' @ pad2 (second dt)"

text \<open>
  \<open>log_transaction\<close>: the log file is a list of lines; \<open>fname\<close> is \<open>func.__name__\<close> and
  \<open>now\<close> the clock's reading.
\<close>

definition log_line :: "datetime \<Rightarrow> string \<Rightarrow> args \<Rightarrow> string" where
  "log_line now fname a =
     strftime now @ '' - '' @ fname @ '': '' @ arg1 a @ '' $'' @ arg2 a @ '' - '' @ arg3 a
     @ [CHR 0x0A]"

definition log_transaction ::
  "string \<Rightarrow> (args \<Rightarrow> user \<Rightarrow> py_error + (transaction option \<times> user))
   \<Rightarrow> datetime \<Rightarrow> args \<Rightarrow> user \<times> string list
   \<Rightarrow> py_error + (transaction option \<times> user \<times> string list)" where
  "log_transaction fname func now a s =
     (case func a (fst s) of
        Inl e \<Rightarrow> Inl e
      | Inr (result, u') \<Rightarrow>
          (case result of
             None \<Rightarrow> Inr (None, u', snd s)
           | Some t \<Rightarrow> Inr (Some t, u', snd s @ [log_line now fname a])))"

text \<open>The undecorated body of \<open>User.add_transaction\<close>.\<close>

definition add_transaction_body :: "args \<Rightarrow> user \<Rightarrow> py_error + (transaction option \<times> user)" where
  "add_transaction_body a u =
     (let tid = int (length (transactions u)) + 1
      in case Transaction tid (arg1 a) (PyStr (arg2 a)) (arg3 a) (arg4 a) (arg5 a) of
           Inl e \<Rightarrow> Inl e
         | Inr t \<Rightarrow> Inr (Some t, u\<lparr>transactions := transactions u @ [t]\<rparr>))"

text \<open>
  \<open>user.add_transaction(date, amount, category, transaction_type, description)\<close> at time
  \<open>now\<close>, on a user and a log file. \<open>Inr (None, _)\<close> is the return value \<open>None\<close>.
\<close>

definition add_transaction ::
  "datetime \<Rightarrow> string \<Rightarrow> string \<Rightarrow> string \<Rightarrow> string \<Rightarrow> string \<Rightarrow> user \<times> string list
   \<Rightarrow> py_error + (transaction option \<times> user \<times> string list)" where
  "add_transaction now d a c ty ds s =
     log_transaction ''add_transaction'' (validate_amount add_transaction_body) now
       \<lparr>arg1 = d, arg2 = a, arg3 = c, arg4 = ty, arg5 = ds\<rparr> s"

definition add_savings_goal ::
  "string \<Rightarrow> pyval \<Rightarrow> user \<Rightarrow> py_error + (savings_goal \<times> user)" where
  "add_savings_goal n t u =
     (let gid = int (length (savings_goals u)) + 1
      in case SavingsGoal gid n t (PyFloat (Finite 0 0)) of
           Inl e \<Rightarrow> Inl e
         | Inr g \<Rightarrow> Inr (g, u\<lparr>savings_goals := savings_goals u @ [g]\<rparr>))"

definition add_budget ::
  "string \<Rightarrow> pyval \<Rightarrow> string \<Rightarrow> user \<Rightarrow> py_error + (budget \<times> user)" where
  "add_budget c l p u =
     (let bid = int (length (budgets u)) + 1
      in case Budget bid c l p of
           Inl e \<Rightarrow> Inl e
         | Inr b \<Rightarrow> Inr (b, u\<lparr>budgets := budgets u @ [b]\<rparr>))"

subsection \<open>Deleting a transaction (\<open>handle_view_transactions\<close>, choice 2)\<close>

text \<open>The loop deletes the first transaction with the given id and stops.\<close>

fun delete_first :: "int \<Rightarrow> transaction list \<Rightarrow> transaction list" where
  "delete_first i [] = []"
| "delete_first i (t # ts) = (if transaction_id t = i then ts else t # delete_first i ts)"

definition delete_transaction :: "int \<Rightarrow> user \<Rightarrow> user" where
  "delete_transaction i u = u\<lparr>transactions := delete_first i (transactions u)\<rparr>"

subsection \<open>Deleting a category (\<open>handle_categories\<close>, choice 3)\<close>

text \<open>
  \<open>c\<close> is the category typed in and \<open>confirm\<close> the answer to the question; nothing happens
  unless the category is in the list and \<open>confirm.lower()\<close> is \<open>y\<close>. \<open>list.remove\<close> takes
  out the first occurrence. The handler then saves the whole tracker.
\<close>

definition delete_category :: "string \<Rightarrow> string \<Rightarrow> user \<Rightarrow> user" where
  "delete_category c confirm u =
     (if c \<notin> set (categories u) then u
      else if map lower_char confirm \<noteq> ''y'' then u
      else u\<lparr>transactions :=
               map (\<lambda>t. if category t = c then t\<lparr>category := ''Other''\<rparr> else t) (transactions u),
             budgets := filter (\<lambda>b. budget_category b \<noteq> c) (budgets u),
             categories := remove1 c (categories u)\<rparr>)"

subsection \<open>Documents: \<open>to_dict\<close> and \<open>from_dict\<close>\<close>

definition bind_err :: "py_error + 'a \<Rightarrow> ('a \<Rightarrow> py_error + 'b) \<Rightarrow> py_error + 'b" where
  "bind_err m f = (case m of Inl e \<Rightarrow> Inl e | Inr x \<Rightarrow> f x)"

text \<open>A list comprehension whose element expression may raise: the first error wins.\<close>

fun traverse :: "('a \<Rightarrow> py_error + 'b) \<Rightarrow> 'a list \<Rightarrow> py_error + 'b list" where
  "traverse f [] = Inr []"
| "traverse f (x # xs) =
     bind_err (f x) (\<lambda>y. bind_err (traverse f xs) (\<lambda>ys. Inr (y # ys)))"

text \<open>\<open>data[k]\<close> and \<open>data.get(k, default)\<close> on a dict.\<close>

definition getitem :: "(string \<times> pyval) list \<Rightarrow> string \<Rightarrow> py_error + pyval" where
  "getitem d k = (case map_of d k of None \<Rightarrow> Inl (KeyError k) | Some v \<Rightarrow> Inr v)"

definition dict_get :: "(string \<times> pyval) list \<Rightarrow> string \<Rightarrow> pyval \<Rightarrow> pyval" where
  "dict_get d k dflt = (case map_of d k of None \<Rightarrow> dflt | Some v \<Rightarrow> v)"

text \<open>The typed records hold integers and texts only where the program writes them.\<close>

definition as_int :: "string \<Rightarrow> pyval \<Rightarrow> py_error + int" where
  "as_int k v = (case v of PyInt i \<Rightarrow> Inr i | _ \<Rightarrow> Inl (IllTyped k))"

definition as_str :: "string \<Rightarrow> pyval \<Rightarrow> py_error + string" where
  "as_str k v = (case v of PyStr s \<Rightarrow> Inr s | _ \<Rightarrow> Inl (IllTyped k))"

definition as_str_list :: "string \<Rightarrow> pyval \<Rightarrow> py_error + string list" where
  "as_str_list k v = (case v of PyList xs \<Rightarrow> traverse (as_str k) xs | _ \<Rightarrow> Inl (IllTyped k))"

text \<open>
  \<open>[f(x) for x in v]\<close>: a list gives its elements, a dict its keys, a text its characters;
  nothing else can be iterated.
\<close>

definition comprehension :: "(pyval \<Rightarrow> py_error + 'a) \<Rightarrow> pyval \<Rightarrow> py_error + 'a list" where
  "comprehension f v =
     (case v of
        PyList xs \<Rightarrow> traverse f xs
      | PyDict kvs \<Rightarrow> traverse f (map (\<lambda>kv. PyStr (fst kv)) kvs)
      | PyStr cs \<Rightarrow> traverse f (map (\<lambda>c. PyStr [c]) cs)
      | _ \<Rightarrow> Inl TypeError)"

definition transaction_to_dict :: "transaction \<Rightarrow> pyval" where
  "transaction_to_dict t =
     PyDict [(''id'', PyInt (transaction_id t)),
             (''date'', PyStr (date t)),
             (''amount'', PyFloat (amount t)),
             (''category'', PyStr (category t)),
             (''type'', PyStr (type t)),
             (''description'', PyStr (description t))]"

definition transaction_from_dict :: "pyval \<Rightarrow> py_error + transaction" where
  "transaction_from_dict data =
     (case data of
        PyDict d \<Rightarrow>
          bind_err (getitem d ''id'') (\<lambda>i.
          bind_err (getitem d ''date'') (\<lambda>dt.
          bind_err (getitem d ''amount'') (\<lambda>a.
          bind_err (getitem d ''category'') (\<lambda>c.
          bind_err (getitem d ''type'') (\<lambda>ty.
          bind_err (as_int ''id'' i) (\<lambda>i'.
          bind_err (as_str ''date'' dt) (\<lambda>dt'.
          bind_err (as_str ''category'' c) (\<lambda>c'.
          bind_err (as_str ''type'' ty) (\<lambda>ty'.
          bind_err (as_str ''description'' (dict_get d ''description'' (PyStr []))) (\<lambda>ds'.
          Transaction i' dt' a c' ty' ds'))))))))))
      | _ \<Rightarrow> Inl TypeError)"

definition savings_goal_to_dict :: "savings_goal \<Rightarrow> pyval" where
  "savings_goal_to_dict g =
     PyDict [(''id'', PyInt (goal_id g)),
             (''name'', PyStr (name g)),
             (''target_amount'', PyFloat (target_amount g)),
             (''current_amount'', PyFloat (current_amount g))]"

definition savings_goal_from_dict :: "pyval \<Rightarrow> py_error + savings_goal" where
  "savings_goal_from_dict data =
     (case data of
        PyDict d \<Rightarrow>
          bind_err (getitem d ''id'') (\<lambda>i.
          bind_err (getitem d ''name'') (\<lambda>n.
          bind_err (getitem d ''target_amount'') (\<lambda>t.
          bind_err (as_int ''id'' i) (\<lambda>i'.
          bind_err (as_str ''name'' n) (\<lambda>n'.
          SavingsGoal i' n' t (dict_get d ''current_amount'' (PyFloat (Finite 0 0))))))))
      | _ \<Rightarrow> Inl TypeError)"

definition budget_to_dict :: "budget \<Rightarrow> pyval" where
  "budget_to_dict b =
     PyDict [(''id'', PyInt (budget_id b)),
             (''category'', PyStr (budget_category b)),
             (''limit'', PyFloat (limit b)),
             (''period'', PyStr (period b))]"

definition budget_from_dict :: "pyval \<Rightarrow> py_error + budget" where
  "budget_from_dict data =
     (case data of
        PyDict d \<Rightarrow>
          bind_err (getitem d ''id'') (\<lambda>i.
          bind_err (getitem d ''category'') (\<lambda>c.
          bind_err (getitem d ''limit'') (\<lambda>l.
          bind_err (as_int ''id'' i) (\<lambda>i'.
          bind_err (as_str ''category'' c) (\<lambda>c'.
          bind_err (as_str ''period'' (dict_get d ''period'' (PyStr ''monthly''))) (\<lambda>p'.
          Budget i' c' l p'))))))
      | _ \<Rightarrow> Inl TypeError)"

definition user_to_dict :: "user \<Rightarrow> pyval" where
  "user_to_dict u =
     PyDict [(''username'', PyStr (username u)),
             (''password'', PyStr (password u)),
             (''transactions'', PyList (map transaction_to_dict (transactions u))),
             (''savings_goals'', PyList (map savings_goal_to_dict (savings_goals u))),
             (''budgets'', PyList (map budget_to_dict (budgets u))),
             (''categories'', PyList (map PyStr (categories u)))]"

definition user_from_dict :: "pyval \<Rightarrow> py_error + user" where
  "user_from_dict data =
     (case data of
        PyDict d \<Rightarrow>
          bind_err (comprehension transaction_from_dict (dict_get d ''transactions'' (PyList []))) (\<lambda>ts.
          bind_err (comprehension savings_goal_from_dict (dict_get d ''savings_goals'' (PyList []))) (\<lambda>gs.
          bind_err (comprehension budget_from_dict (dict_get d ''budgets'' (PyList []))) (\<lambda>bs.
          bind_err (getitem d ''username'') (\<lambda>un.
          bind_err (getitem d ''password'') (\<lambda>pw.
          bind_err (as_str ''username'' un) (\<lambda>un'.
          bind_err (as_str ''password'' pw) (\<lambda>pw'.
          (case map_of d ''categories'' of
             None \<Rightarrow> Inr (User un' pw' ts gs bs)
           | Some cs \<Rightarrow>
               bind_err (as_str_list ''categories'' cs) (\<lambda>cs'.
               Inr ((User un' pw' ts gs bs)\<lparr>categories := cs'\<rparr>))))))))))
      | _ \<Rightarrow> Inl TypeError)"

section \<open>FinanceTracker\<close>







section \<open>Sequences of calls\<close>

datatype call =
    AddTransaction datetime string string string string string
  | DeleteTransaction int

text \<open>A session of calls on one user; an uncaught exception ends it.\<close>

fun run :: "call list \<Rightarrow> user \<times> string list \<Rightarrow> py_error + (user \<times> string list)" where
  "run [] s = Inr s"
| "run (AddTransaction now d a c ty ds # cs) s =
     (case add_transaction now d a c ty ds s of
        Inl e \<Rightarrow> Inl e
      | Inr r \<Rightarrow> run cs (snd r))"
| "run (DeleteTransaction i # cs) s = run cs (delete_transaction i (fst s), snd s)"

fun is_add :: "call \<Rightarrow> bool" where
  "is_add (AddTransaction now d a c ty ds) = True"
| "is_add (DeleteTransaction i) = False"

definition transaction_ids :: "user \<Rightarrow> int list" where
  "transaction_ids u = map transaction_id (transactions u)"

definition run_ids :: "call list \<Rightarrow> user \<times> string list \<Rightarrow> py_error + int list" where
  "run_ids cs s = (case run cs s of Inl e \<Rightarrow> Inl e | Inr s' \<Rightarrow> Inr (transaction_ids (fst s')))"

section \<open>What the specification says, for comparison\<close>

text \<open>
  The notification rule in the specification's words: \<open>spent\<close> is the category's entry
  in the expenses map, 0 if absent; "exceeded" when \<open>spent >= limit\<close>, otherwise
  "warning" when \<open>spent >= 0.8 * limit\<close>, otherwise nothing.
\<close>

definition spec_spent :: "(string \<times> pyfloat) list \<Rightarrow> budget \<Rightarrow> pyfloat" where
  "spec_spent e b = (case map_of e (budget_category b) of None \<Rightarrow> Finite 0 0 | Some v \<Rightarrow> v)"

definition spec_notification :: "(string \<times> pyfloat) list \<Rightarrow> budget \<Rightarrow> notification list" where
  "spec_notification e b =
     (if fge (spec_spent e b) (limit b) then
        [Budget_Alert (budget_category b) (limit b) (spec_spent e b)]
      else if fge (spec_spent e b) (fmul (round_decimal 8 (- 1)) (limit b)) then
        [Budget_Warning (budget_category b) (limit b) (spec_spent e b)]
      else [])"

text \<open>
  The audit line in the specification's words:
  \<open><timestamp> - add_transaction: <userArg2> $<amount> - <descriptionArg>\<close>.
\<close>

definition spec_log_line :: "string \<Rightarrow> string \<Rightarrow> string \<Rightarrow> string \<Rightarrow> string" where
  "spec_log_line timestamp userArg2 amt descriptionArg =
     timestamp @ '' - add_transaction: '' @ userArg2 @ '' $'' @ amt @ '' - '' @ descriptionArg
     @ [CHR 0x0A]"

section \<open>Sample values\<close>

text \<open>Amounts are written as decimals: \<open>round_decimal 7999 (- 2)\<close> is the float \<open>79.99\<close>.\<close>

definition sample_clock :: datetime where
  "sample_clock = \<lparr>year = 2024, month = 3, day = 5, hour = 10, minute = 20, second = 30\<rparr>"

definition sample_user :: user where
  "sample_user = User ''ann'' ''pw'' [] [] []"

text \<open>
  Budgets of 100 with expenses of 100, 80 and 79.99, a budget of 3 with an expense of
  2.4, and a budget of 100 for a category without expenses.
\<close>

definition budget_sample_user :: user where
  "budget_sample_user =
     \<lparr>username = ''ann'', password = ''pw'',
      transactions =
        [\<lparr>transaction_id = 1, date = ''2024-01-01'', amount = round_decimal 100 0,
          category = ''Bills'', type = ''expense'', description = ''''\<rparr>,
         \<lparr>transaction_id = 2, date = ''2024-01-02'', amount = round_decimal 80 0,
          category = ''Groceries'', type = ''expense'', description = ''''\<rparr>,
         \<lparr>transaction_id = 3, date = ''2024-01-03'', amount = round_decimal 7999 (- 2),
          category = ''Housing'', type = ''expense'', description = ''''\<rparr>,
         \<lparr>transaction_id = 4, date = ''2024-01-04'', amount = round_decimal 24 (- 1),
          category = ''Transportation'', type = ''expense'', description = ''''\<rparr>,
         \<lparr>transaction_id = 5, date = ''2024-01-05'', amount = round_decimal 500 0,
          category = ''Other'', type = ''income'', description = ''''\<rparr>],
      savings_goals = [],
      budgets =
        [\<lparr>budget_id = 1, budget_category = ''Bills'', limit = round_decimal 100 0,
          period = ''monthly''\<rparr>,
         \<lparr>budget_id = 2, budget_category = ''Groceries'', limit = round_decimal 100 0,
          period = ''monthly''\<rparr>,
         \<lparr>budget_id = 3, budget_category = ''Housing'', limit = round_decimal 100 0,
          period = ''monthly''\<rparr>,
         \<lparr>budget_id = 4, budget_category = ''Transportation'', limit = round_decimal 3 0,
          period = ''monthly''\<rparr>,
         \<lparr>budget_id = 5, budget_category = ''Other'', limit = round_decimal 100 0,
          period = ''monthly''\<rparr>],
      categories = default_categories\<rparr>"

text \<open>A new user with one budget, of limit 0, and no transaction.\<close>

definition zero_limit_user :: user where
  "zero_limit_user = sample_user\<lparr>budgets :=
     [\<lparr>budget_id = 1, budget_category = ''Other'', limit = Finite 0 0,
      period = ''monthly''\<rparr>]\<rparr>"

text \<open>A user whose only transaction has the amount \<open>nan\<close>.\<close>

definition nan_user :: user where
  "nan_user = sample_user\<lparr>transactions :=
     [\<lparr>transaction_id = 1, date = ''20240115'', amount = NaN, category = ''Bills'',
       type = ''expense'', description = ''rent''\<rparr>]\<rparr>"

definition two_adds :: "call list" where
  "two_adds =
     [AddTransaction sample_clock ''20240115'' ''50'' ''Bills'' ''expense'' ''rent'',
      AddTransaction sample_clock ''20240116'' ''12.5'' ''Other'' ''income'' ''gift'']"

definition two_adds_user :: user where
  "two_adds_user = sample_user\<lparr>transactions :=
     [\<lparr>transaction_id = 1, date = ''20240115'', amount = round_decimal 50 0,
       category = ''Bills'', type = ''expense'', description = ''rent''\<rparr>,
      \<lparr>transaction_id = 2, date = ''20240116'', amount = round_decimal 125 (- 1),
       category = ''Other'', type = ''income'', description = ''gift''\<rparr>]\<rparr>"

definition add_delete_add :: "call list" where
  "add_delete_add = two_adds @
     [DeleteTransaction 1,
      AddTransaction sample_clock ''20240117'' ''7'' ''Other'' ''expense'' ''tea'']"

definition three_goals :: user where
  "three_goals = sample_user\<lparr>savings_goals :=
     [\<lparr>goal_id = 1, name = ''car'', target_amount = round_decimal 100 0,
       current_amount = Finite 0 0\<rparr>,
      \<lparr>goal_id = 2, name = ''trip'', target_amount = round_decimal 200 0,
       current_amount = Finite 0 0\<rparr>,
      \<lparr>goal_id = 3, name = ''bike'', target_amount = round_decimal 300 0,
       current_amount = Finite 0 0\<rparr>]\<rparr>"



definition bills_user :: user where
  "bills_user = sample_user
     \<lparr>transactions :=
        [\<lparr>transaction_id = 1, date = ''2024-01-01'', amount = round_decimal 40 0,
          category = ''Bills'', type = ''expense'', description = ''power''\<rparr>,
         \<lparr>transaction_id = 2, date = ''2024-01-02'', amount = round_decimal 15 0,
          category = ''Groceries'', type = ''expense'', description = ''bread''\<rparr>],
      budgets :=
        [\<lparr>budget_id = 1, budget_category = ''Bills'', limit = round_decimal 100 0,
          period = ''monthly''\<rparr>,
         \<lparr>budget_id = 2, budget_category = ''Groceries'', limit = round_decimal 50 0,
          period = ''weekly''\<rparr>]\<rparr>"

text \<open>A goal holding 2, and a goal holding \<open>1e17\<close>, where neighbouring doubles are 16 apart.\<close>

definition car_goal :: savings_goal where
  "car_goal = \<lparr>goal_id = 1, name = ''car'', target_amount = round_decimal 100 0,
               current_amount = round_decimal 2 0\<rparr>"

definition big_goal :: savings_goal where
  "big_goal = \<lparr>goal_id = 2, name = ''house'', target_amount = round_decimal 1 18,
               current_amount = round_decimal 1 17\<rparr>"

section \<open>Properties\<close>

subsection \<open>Evaluating the model\<close>

lemmas round_eval = round_decimal_def round_ratio_def round_dyadic_def round_at_def pack_def
  binary_exponent_def round_half_even_def nearest_even_def shl_def bitlen.simps trim.simps

lemmas float_eval = float_str_def strip_def is_space_def absfloatvalue_def number_def
  digitpart_def is_digit_def digit_val_def lower_char_def exponent_def int_of_digits_def

lemma decimal_0_8: "round_decimal 8 (- 1) = Finite 3602879701896397 (- 52)"
  by (simp add: round_eval)

lemma decimal_2: "round_decimal 2 0 = Finite 1 1"
  by (simp add: round_eval)

lemma decimal_2_4: "round_decimal 24 (- 1) = Finite 5404319552844595 (- 51)"
  by (simp add: round_eval)

lemma decimal_3: "round_decimal 3 0 = Finite 3 0"
  by (simp add: round_eval)

lemma decimal_minus_3: "round_decimal (- 3) 0 = Finite (- 3) 0"
  by (simp add: round_eval)

lemma decimal_minus_5: "round_decimal (- 5) 0 = Finite (- 5) 0"
  by (simp add: round_eval)

lemma decimal_minus_1: "round_decimal (- 1) 0 = Finite (- 1) 0"
  by (simp add: round_eval)

lemma decimal_minus_10: "round_decimal (- 10) 0 = Finite (- 5) 1"
  by (simp add: round_eval)

lemma decimal_12_5: "round_decimal 125 (- 1) = Finite 25 (- 1)"
  by (simp add: round_eval)

lemma decimal_minus_37_5: "round_decimal (- 375) (- 1) = Finite (- 75) (- 1)"
  by (simp add: round_eval)

lemma decimal_50: "round_decimal 50 0 = Finite 25 1"
  by (simp add: round_eval)

lemma decimal_79_99: "round_decimal 7999 (- 2) = Finite 5628795846771343 (- 46)"
  by (simp add: round_eval)

lemma decimal_80: "round_decimal 80 0 = Finite 5 4"
  by (simp add: round_eval)

lemma decimal_100: "round_decimal 100 0 = Finite 25 2"
  by (simp add: round_eval)

lemma decimal_500: "round_decimal 500 0 = Finite 125 2"
  by (simp add: round_eval)

lemma decimal_1e17: "round_decimal 1 17 = Finite 762939453125 17"
  by (simp add: round_eval)

lemma float_iso_date: "float_str ''2024-01-15'' = Inl ValueError"
  by (simp add: float_eval)

lemma float_compact_date: "float_str ''20240115'' = Inr (Finite 20240115 0)"
  by (simp add: float_eval round_eval)

lemma float_date_16: "float_str ''20240116'' = Inr (Finite 5060029 2)"
  by (simp add: float_eval round_eval)

lemma float_date_17: "float_str ''20240117'' = Inr (Finite 20240117 0)"
  by (simp add: float_eval round_eval)

lemma float_fifty: "float_str ''50'' = Inr (Finite 25 1)"
  by (simp add: float_eval round_eval)

lemma float_twelve_and_a_half: "float_str ''12.5'' = Inr (Finite 25 (- 1))"
  by (simp add: float_eval round_eval)

lemma float_seven: "float_str ''7'' = Inr (Finite 7 0)"
  by (simp add: float_eval round_eval)

lemma float_minus_ten: "float_str ''-10'' = Inr (Finite (- 5) 1)"
  by (simp add: float_eval round_eval)

lemma float_abc: "float_str ''abc'' = Inl ValueError"
  by (simp add: float_eval)

lemma float_nan: "float_str ''nan'' = Inr NaN"
  by (simp add: float_eval)

lemma strftime_sample: "strftime sample_clock = ''2024-03-05 10:20:30''"
  by (simp add: strftime_def sample_clock_def pad2_def pad4_def digit_char_def)

text \<open>
  The decorated \<open>add_transaction\<close>, unfolded: the date argument is what \<open>float\<close> checks
  first; the amount argument meets \<open>float\<close> only inside \<open>Transaction.__init__\<close>.
\<close>

lemma add_transaction_unfold:
  "add_transaction now d a c ty ds (u, l) =
     (case float_str d of
        Inl ValueError \<Rightarrow> Inr (None, u, l)
      | Inl e \<Rightarrow> Inl e
      | Inr x \<Rightarrow>
          if fle x (Finite 0 0) then Inr (None, u, l)
          else (case float_str a of
                  Inl e \<Rightarrow> Inl e
                | Inr y \<Rightarrow>
                    Inr (Some \<lparr>transaction_id = int (length (transactions u)) + 1, date = d,
                               amount = y, category = c, type = ty, description = ds\<rparr>,
                         u\<lparr>transactions := transactions u @
                            [\<lparr>transaction_id = int (length (transactions u)) + 1, date = d,
                              amount = y,
                               category = c, type = ty, description = ds\<rparr>]\<rparr>,
                         l @ [strftime now @ '' - add_transaction: '' @ d @ '' $'' @ a
                              @ '' - '' @ c @ [CHR 0x0A]])))"
  by (simp add: add_transaction_def log_transaction_def validate_amount_def
      add_transaction_body_def Transaction_def log_line_def Let_def
      split: sum.splits py_error.splits)

lemma feq_self: "feq x x = (x \<noteq> NaN)"
  by (cases x) (simp_all add: feq_def)

lemma fmul_commute: "fmul x y = fmul y x"
  by (cases x; cases y) (simp_all add: mult.commute add.commute)

subsection \<open>Balance\<close>

lemma nan_user_balance: "get_balance nan_user = NaN"
  by (simp add: get_balance_def nan_user_def sample_user_def User_def py_sum_def fsub_def)

lemma two_adds_user_balance: "get_balance two_adds_user = round_decimal (- 375) (- 1)"
  by (simp add: get_balance_def two_adds_user_def sample_user_def User_def py_sum_def fsub_def
      decimal_50 decimal_12_5 decimal_minus_37_5)
    (simp add: round_eval)

text \<open>
  Claim C1, as amended. For every user, \<open>get_balance\<close> returns the very float that
  \<open>get_total_income() - get_total_expenses()\<close> evaluates to, and Python's \<open>==\<close> between
  the two is true exactly when that float is not \<open>nan\<close>.
\<close>

theorem get_balance_is_income_minus_expenses:
  "get_balance u = fsub (get_total_income u) (get_total_expenses u)
   \<and> feq (get_balance u) (fsub (get_total_income u) (get_total_expenses u))
       = (get_balance u \<noteq> NaN)"
  by (simp add: get_balance_def get_total_income_def get_total_expenses_def feq_self)

text \<open>An expense of 50 and an income of 12.5: the balance is -37.5 and \<open>==\<close> holds.\<close>

theorem get_balance_is_income_minus_expenses_witness:
  "get_balance two_adds_user = round_decimal (- 375) (- 1)
   \<and> feq (get_balance two_adds_user)
         (fsub (get_total_income two_adds_user) (get_total_expenses two_adds_user))"
proof -
  have known: "get_balance two_adds_user \<noteq> NaN"
    by (simp add: two_adds_user_balance decimal_minus_37_5)
  have "feq (get_balance two_adds_user)
          (fsub (get_total_income two_adds_user) (get_total_expenses two_adds_user))"
    using get_balance_is_income_minus_expenses [of two_adds_user, THEN conjunct2] known
    by (rule iffD2)
  with two_adds_user_balance show ?thesis by (rule conjI)
qed

text \<open>
  Claim C1 as stated fails: the amount text \<open>nan\<close> is accepted (the date is what gets
  validated, and \<open>nan <= 0\<close> is false anyway), the balance is then \<open>nan\<close>, and \<open>==\<close>
  between the balance and income minus expenses is false.
\<close>

theorem balance_not_equal_for_nan:
  "add_transaction sample_clock ''20240115'' ''nan'' ''Bills'' ''expense'' ''rent''
     (sample_user, [])
     = Inr (Some \<lparr>transaction_id = 1, date = ''20240115'', amount = NaN,
      category = ''Bills'',
                  type = ''expense'', description = ''rent''\<rparr>,
            nan_user,
            [''2024-03-05 10:20:30 - add_transaction: 20240115 $nan - Bills'' @ [CHR 0x0A]])
   \<and> get_balance nan_user = NaN
   \<and> \<not> feq (get_balance nan_user)
            (fsub (get_total_income nan_user) (get_total_expenses nan_user))"
  by (simp add: add_transaction_unfold float_compact_date float_nan shl_def
      strftime_sample nan_user_def sample_user_def User_def get_balance_def
      get_total_income_def get_total_expenses_def py_sum_def fsub_def feq_def)

subsection \<open>Validation in \<open>add_transaction\<close>\<close>

text \<open>
  Claim C2 says that \<open>add_transaction\<close> rejects an amount that is not a positive number
  and accepts every positive one. The decorator reads \<open>args[1]\<close>, which is the date.
  Evaluated on a new user: with the date \<open>2024-01-15\<close> and the amount \<open>50\<close> the call
  returns \<open>None\<close> and appends nothing; with the date \<open>20240115\<close> the amount \<open>-10\<close> is
  accepted and stored, and the amount \<open>abc\<close> raises \<open>ValueError\<close> out of the constructor.
\<close>

theorem add_transaction_validates_date_argument:
  "add_transaction sample_clock ''2024-01-15'' ''50'' ''Bills'' ''expense'' ''rent''
     (sample_user, []) = Inr (None, sample_user, [])
   \<and> add_transaction sample_clock ''20240115'' ''-10'' ''Bills'' ''expense'' ''rent''
       (sample_user, [])
     = Inr (Some \<lparr>transaction_id = 1, date = ''20240115'', amount = round_decimal (- 10) 0,
                  category = ''Bills'', type = ''expense'', description = ''rent''\<rparr>,
            sample_user\<lparr>transactions :=
              [\<lparr>transaction_id = 1, date = ''20240115'', amount = round_decimal (- 10) 0,
                category = ''Bills'', type = ''expense'', description = ''rent''\<rparr>]\<rparr>,
            [''2024-03-05 10:20:30 - add_transaction: 20240115 $-10 - Bills'' @ [CHR 0x0A]])
   \<and> add_transaction sample_clock ''20240115'' ''abc'' ''Bills'' ''expense'' ''rent''
       (sample_user, []) = Inl ValueError"
  by (simp add: add_transaction_unfold float_iso_date float_compact_date float_minus_ten
      float_abc shl_def decimal_minus_10 strftime_sample sample_user_def User_def)

subsection \<open>Budget notifications\<close>

lemma notify_step_from_empty: "notify_step e ns b = ns @ notify_step e [] b"
  by (simp add: notify_step_def split: option.splits)

lemma notify_foldl:
  "foldl (notify_step e) ns bs = ns @ concat (map (notify_step e []) bs)"
proof (induction bs arbitrary: ns)
  case Nil
  show ?case by simp
next
  case (Cons b bs)
  have "foldl (notify_step e) (notify_step e ns b) bs
          = notify_step e ns b @ concat (map (notify_step e []) bs)"
    by (rule Cons.IH)
  also have "\<dots> = ns @ notify_step e [] b @ concat (map (notify_step e []) bs)"
    using notify_step_from_empty [of e ns b] by simp
  finally show ?case by simp
qed

lemma notify_step_rule:
  "notify_step e []
     = (\<lambda>b. if map_of e (budget_category b) = None then [] else spec_notification e b)"
proof (rule ext)
  fix b
  show "notify_step e [] b
     = (if map_of e (budget_category b) = None then [] else spec_notification e b)"
    by (auto simp add: notify_step_def spec_notification_def spec_spent_def
        fmul_commute [of "limit b"] split: option.splits)
qed

lemma expenses_sample:
  "get_expenses_by_category budget_sample_user
     = [(''Bills'', round_decimal 100 0), (''Groceries'', round_decimal 80 0),
        (''Housing'', round_decimal 7999 (- 2)), (''Transportation'', round_decimal 24 (- 1))]"
  by (simp add: get_expenses_by_category_def budget_sample_user_def expenses_step_def
      dict_update_def decimal_100 decimal_80 decimal_79_99 decimal_2_4)
    (simp add: round_eval)

text \<open>
  Claim C3, as amended. \<open>check_budget_notifications\<close> gives, budget by budget and in
  the order of the budget list: nothing when the budget's category is absent from the
  expenses map, whatever the limit; otherwise what the specification's rule gives with
  \<open>spent\<close> taken from the map, that is one "exceeded" message when \<open>spent >= limit\<close>,
  else one "warning" message when \<open>spent >= 0.8 * limit\<close> with the product rounded as a
  float, else none. Neither the rule nor a step of the program's loop gives two
  messages for a budget.
\<close>

theorem check_budget_notifications_follows_rule:
  "check_budget_notifications u
     = concat (map (\<lambda>b. if map_of (get_expenses_by_category u) (budget_category b) = None
                         then []
                         else spec_notification (get_expenses_by_category u) b)
                   (budgets u))
   \<and> (\<forall>b. length (spec_notification (get_expenses_by_category u) b) \<le> 1)
   \<and> (\<forall>ns b. length (notify_step (get_expenses_by_category u) ns b) \<le> Suc (length ns))"
proof (intro conjI)
  show "check_budget_notifications u
     = concat (map (\<lambda>b. if map_of (get_expenses_by_category u) (budget_category b) = None
                         then []
                         else spec_notification (get_expenses_by_category u) b)
                   (budgets u))"
    using notify_foldl [of "get_expenses_by_category u" "[]" "budgets u"]
    by (simp add: check_budget_notifications_def notify_step_rule)
next
  show "\<forall>b. length (spec_notification (get_expenses_by_category u) b) \<le> 1"
    by (simp add: spec_notification_def)
next
  show "\<forall>ns b. length (notify_step (get_expenses_by_category u) ns b) \<le> Suc (length ns)"
    by (simp add: notify_step_def split: option.splits)
qed

text \<open>
  With a limit of 100: spending 100 gives the one "exceeded" message, 80 the one
  "warning" message, 79.99 and an absent category give none. With a limit of 3 the
  threshold \<open>3 * 0.8\<close> is the float just above 2.4, so spending 2.4 gives none.
\<close>

theorem check_budget_notifications_follows_rule_witness:
  "check_budget_notifications budget_sample_user
     = [Budget_Alert ''Bills'' (round_decimal 100 0) (round_decimal 100 0),
        Budget_Warning ''Groceries'' (round_decimal 100 0) (round_decimal 80 0)]"
proof -
  have b: "budgets budget_sample_user =
        [\<lparr>budget_id = 1, budget_category = ''Bills'', limit = round_decimal 100 0,
          period = ''monthly''\<rparr>,
         \<lparr>budget_id = 2, budget_category = ''Groceries'', limit = round_decimal 100 0,
          period = ''monthly''\<rparr>,
         \<lparr>budget_id = 3, budget_category = ''Housing'', limit = round_decimal 100 0,
          period = ''monthly''\<rparr>,
         \<lparr>budget_id = 4, budget_category = ''Transportation'', limit = round_decimal 3 0,
          period = ''monthly''\<rparr>,
         \<lparr>budget_id = 5, budget_category = ''Other'', limit = round_decimal 100 0,
          period = ''monthly''\<rparr>]"
    by (simp add: budget_sample_user_def)
  show ?thesis
    using check_budget_notifications_follows_rule [of budget_sample_user, THEN conjunct1]
    by (simp add: expenses_sample b spec_notification_def spec_spent_def fge_def
        decimal_100 decimal_80 decimal_79_99 decimal_2_4 decimal_3 decimal_0_8)
      (simp add: round_eval)
qed

text \<open>
  Claim C3 as stated fails for a budget of limit 0 whose category has no expense:
  with \<open>spent = 0\<close> the stated rule gives an "exceeded" message, the program gives none.
\<close>

theorem zero_limit_budget_gets_no_message:
  "add_budget ''Other'' (PyInt 0) ''monthly'' sample_user
     = Inr (\<lparr>budget_id = 1, budget_category = ''Other'', limit = Finite 0 0,
              period = ''monthly''\<rparr>, zero_limit_user)
   \<and> check_budget_notifications zero_limit_user = []
   \<and> concat (map (spec_notification (get_expenses_by_category zero_limit_user))
                (budgets zero_limit_user))
       = [Budget_Alert ''Other'' (Finite 0 0) (Finite 0 0)]"
  by (simp add: add_budget_def Budget_def float_int_def round_ratio_def zero_limit_user_def
      sample_user_def User_def check_budget_notifications_def get_expenses_by_category_def
      notify_step_def spec_notification_def spec_spent_def fge_def shl_def)

subsection \<open>Round trip through the document form\<close>

lemma traverse_map_inverse:
  "(\<And>x. f (g x) = Inr x) \<Longrightarrow> traverse f (map g xs) = Inr xs"
  by (induction xs) (simp_all add: bind_err_def)

lemma transaction_roundtrip: "transaction_from_dict (transaction_to_dict t) = Inr t"
  by (simp add: transaction_from_dict_def transaction_to_dict_def getitem_def dict_get_def
      as_int_def as_str_def bind_err_def Transaction_def)

lemma savings_goal_roundtrip: "savings_goal_from_dict (savings_goal_to_dict g) = Inr g"
  by (simp add: savings_goal_from_dict_def savings_goal_to_dict_def getitem_def dict_get_def
      as_int_def as_str_def bind_err_def SavingsGoal_def)

lemma budget_roundtrip: "budget_from_dict (budget_to_dict b) = Inr b"
  by (simp add: budget_from_dict_def budget_to_dict_def getitem_def dict_get_def
      as_int_def as_str_def bind_err_def Budget_def)

lemma as_str_list_roundtrip: "as_str_list k (PyList (map PyStr cs)) = Inr cs"
  by (simp add: as_str_list_def traverse_map_inverse as_str_def)

text \<open>
  Claim C4. For every user, \<open>from_dict\<close> applied to the result of \<open>to_dict\<close> returns, without
  raising, a user equal to the original in every field: name, password, every
  transaction, savings goal and budget with all their fields, and the category list.
\<close>

theorem user_roundtrip: "user_from_dict (user_to_dict u) = Inr u"
  by (simp add: user_from_dict_def user_to_dict_def getitem_def dict_get_def comprehension_def
      traverse_map_inverse transaction_roundtrip savings_goal_roundtrip budget_roundtrip
      as_str_list_roundtrip as_str_def bind_err_def User_def)

subsection \<open>Transaction ids\<close>

lemma add_transaction_ids:
  assumes "add_transaction now d a c ty ds (u, l) = Inr (r, u', l')"
    and "transaction_ids u = [1..int (length (transactions u))]"
  shows "transaction_ids u' = [1..int (length (transactions u'))]"
  using assms
  by (auto simp add: add_transaction_unfold transaction_ids_def upto_rec2
      split: sum.splits py_error.splits if_splits)

lemma run_adds_ids:
  "run cs (u, l) = Inr (u', l') \<Longrightarrow> \<forall>c\<in>set cs. is_add c \<Longrightarrow>
   transaction_ids u = [1..int (length (transactions u))] \<Longrightarrow>
   transaction_ids u' = [1..int (length (transactions u'))]"
proof (induction cs arbitrary: u l)
  case Nil
  then show ?case by simp
next
  case (Cons c cs)
  then obtain now d a ca ty ds where c: "c = AddTransaction now d a ca ty ds"
    by (cases c) auto
  from Cons.prems(1) c obtain r u1 l1 where
    step: "add_transaction now d a ca ty ds (u, l) = Inr (r, u1, l1)"
    and rest: "run cs (u1, l1) = Inr (u', l')"
    by (auto split: sum.splits)
  have "transaction_ids u1 = [1..int (length (transactions u1))]"
    using add_transaction_ids [OF step Cons.prems(3)] .
  with Cons.IH [OF rest] Cons.prems(2) show ?case by simp
qed

lemma run_two_adds:
  "run two_adds (sample_user, []) =
      Inr (two_adds_user,
           [''2024-03-05 10:20:30 - add_transaction: 20240115 $50 - Bills'' @ [CHR 0x0A],
            ''2024-03-05 10:20:30 - add_transaction: 20240116 $12.5 - Other'' @ [CHR 0x0A]])"
  by (simp add: two_adds_def two_adds_user_def add_transaction_unfold float_compact_date
      float_date_16 float_fifty float_twelve_and_a_half decimal_50 decimal_12_5 shl_def
      sample_user_def User_def strftime_sample)

text \<open>
  Claim C5, as amended. An id is the length of the list plus one. In a session of
  \<open>add_transaction\<close> calls with no deletion, on a user whose ids are 1 to n in order (a
  new user has none), the ids stay 1 to m in order, so they are pairwise distinct.
\<close>

theorem ids_sequential_without_delete:
  assumes "run cs (u, l) = Inr (u', l')"
    and "\<forall>c\<in>set cs. is_add c"
    and "transaction_ids u = [1..int (length (transactions u))]"
  shows "transaction_ids u' = [1..int (length (transactions u'))]
         \<and> distinct (transaction_ids u')"
proof -
  have "transaction_ids u' = [1..int (length (transactions u'))]"
    using run_adds_ids [OF assms] .
  then show ?thesis by simp
qed

theorem ids_sequential_without_delete_witness:
  "run_ids two_adds (sample_user, []) = Inr [1, 2]
   \<and> list_all is_add two_adds
   \<and> transaction_ids sample_user = [1..int (length (transactions sample_user))]
   \<and> distinct [1, 2 :: int]"
proof -
  have a: "\<forall>c\<in>set two_adds. is_add c" by (simp add: two_adds_def)
  have i: "transaction_ids sample_user = [1..int (length (transactions sample_user))]"
    by (simp add: transaction_ids_def sample_user_def User_def)
  show ?thesis
    using ids_sequential_without_delete [OF run_two_adds a i] a i
    by (simp add: run_ids_def run_two_adds transaction_ids_def list_all_iff two_adds_user_def)
qed

text \<open>
  Claim C5 as stated fails: two additions, the deletion of id 1 and one more addition
  leave two transactions that both have id 2.
\<close>

theorem ids_repeated_after_delete:
  "run_ids add_delete_add (sample_user, []) = Inr [2, 2] \<and> \<not> distinct [2, 2 :: int]"
  by (simp add: run_ids_def add_delete_add_def two_adds_def add_transaction_unfold
      float_compact_date float_date_16 float_date_17 float_fifty float_twelve_and_a_half
      float_seven shl_def sample_user_def User_def delete_transaction_def transaction_ids_def)

subsection \<open>Savings goal ids\<close>

lemma add_savings_goal_float:
  "add_savings_goal n (PyFloat x) u
     = Inr (\<lparr>goal_id = int (length (savings_goals u)) + 1, name = n, target_amount = x,
              current_amount = Finite 0 0\<rparr>,
            u\<lparr>savings_goals := savings_goals u @
                 [\<lparr>goal_id = int (length (savings_goals u)) + 1, name = n, target_amount = x,
                   current_amount = Finite 0 0\<rparr>]\<rparr>)"
  by (simp add: add_savings_goal_def SavingsGoal_def Let_def)

lemma add_savings_goal_returns:
  assumes "add_savings_goal n t u = Inr (g, u')"
  shows "goal_id g = int (length (savings_goals u)) + 1
         \<and> savings_goals u' = savings_goals u @ [g]"
proof -
  from assms obtain x where "py_float t = Inr x"
    by (cases "py_float t") (simp_all add: add_savings_goal_def SavingsGoal_def Let_def)
  with assms show ?thesis
    by (auto simp add: add_savings_goal_def SavingsGoal_def Let_def)
qed

lemma two_goals_left:
  fixes gs :: "savings_goal list"
  assumes "map goal_id gs = [1, 2, 3]"
  shows "length (filter (\<lambda>g. goal_id g \<noteq> 3) gs) = 2"
proof -
  from assms obtain a b c where "gs = [a, b, c]" "goal_id a = 1" "goal_id b = 2" "goal_id c = 3"
    by (auto simp add: map_eq_Cons_conv)
  then show ?thesis by simp
qed

text \<open>
  Claim C6. \<open>add_savings_goal\<close> with a numeric target always returns a goal whose id is
  the current number of goals plus one, and appends it; whenever the call returns, the
  id is that number. So with goals of ids 1, 2, 3, once the goal with id 3 is taken out
  of the list, the next goal added gets id 3 again.
\<close>

theorem add_savings_goal_id_is_count_plus_one:
  "add_savings_goal n (PyFloat x) u
     = Inr (\<lparr>goal_id = int (length (savings_goals u)) + 1, name = n, target_amount = x,
              current_amount = Finite 0 0\<rparr>,
            u\<lparr>savings_goals := savings_goals u @
                 [\<lparr>goal_id = int (length (savings_goals u)) + 1, name = n, target_amount = x,
                   current_amount = Finite 0 0\<rparr>]\<rparr>)
   \<and> (\<forall>g u'. add_savings_goal n t u = Inr (g, u') \<longrightarrow>
          goal_id g = int (length (savings_goals u)) + 1
          \<and> savings_goals u' = savings_goals u @ [g])
   \<and> (map goal_id (savings_goals u) = [1, 2, 3] \<longrightarrow>
        (\<forall>g u'. add_savings_goal n t
                   (u\<lparr>savings_goals := filter (\<lambda>g. goal_id g \<noteq> 3) (savings_goals u)\<rparr>)
                 = Inr (g, u') \<longrightarrow> goal_id g = 3))"
proof (intro conjI allI impI)
  show "add_savings_goal n (PyFloat x) u
     = Inr (\<lparr>goal_id = int (length (savings_goals u)) + 1, name = n, target_amount = x,
              current_amount = Finite 0 0\<rparr>,
            u\<lparr>savings_goals := savings_goals u @
                 [\<lparr>goal_id = int (length (savings_goals u)) + 1, name = n, target_amount = x,
                   current_amount = Finite 0 0\<rparr>]\<rparr>)"
    by (rule add_savings_goal_float)
next
  fix g u' assume "add_savings_goal n t u = Inr (g, u')"
  then show "goal_id g = int (length (savings_goals u)) + 1"
    and "savings_goals u' = savings_goals u @ [g]"
    using add_savings_goal_returns by blast+
next
  fix g u'
  assume ids: "map goal_id (savings_goals u) = [1, 2, 3]"
    and r: "add_savings_goal n t
              (u\<lparr>savings_goals := filter (\<lambda>g. goal_id g \<noteq> 3) (savings_goals u)\<rparr>)
            = Inr (g, u')"
  from add_savings_goal_returns [OF r] two_goals_left [OF ids]
  show "goal_id g = 3" by simp
qed

theorem add_savings_goal_id_is_count_plus_one_witness:
  "map goal_id (savings_goals three_goals) = [1, 2, 3]
   \<and> add_savings_goal ''boat'' (PyFloat (round_decimal 400 0))
        (three_goals\<lparr>savings_goals := filter (\<lambda>g. goal_id g \<noteq> 3) (savings_goals three_goals)\<rparr>)
       = Inr (\<lparr>goal_id = 3, name = ''boat'', target_amount = round_decimal 400 0,
        current_amount = Finite 0 0\<rparr>,
              three_goals\<lparr>savings_goals :=
                [\<lparr>goal_id = 1, name = ''car'', target_amount = round_decimal 100 0,
                 current_amount = Finite 0 0\<rparr>,
                 \<lparr>goal_id = 2, name = ''trip'', target_amount = round_decimal 200 0,
                  current_amount = Finite 0 0\<rparr>,
                 \<lparr>goal_id = 3, name = ''boat'', target_amount = round_decimal 400 0,
                  current_amount = Finite 0 0\<rparr>]\<rparr>)
   \<and> goal_id \<lparr>goal_id = 3, name = ''boat'', target_amount = round_decimal 400 0,
    current_amount = Finite 0 0\<rparr> = 3"
proof -
  have ids: "map goal_id (savings_goals three_goals) = [1, 2, 3]"
    by (simp add: three_goals_def)
  have res: "add_savings_goal ''boat'' (PyFloat (round_decimal 400 0))
          (three_goals\<lparr>savings_goals :=
             filter (\<lambda>g. goal_id g \<noteq> 3) (savings_goals three_goals)\<rparr>)
        = Inr (\<lparr>goal_id = 3, name = ''boat'', target_amount = round_decimal 400 0,
         current_amount = Finite 0 0\<rparr>,
              three_goals\<lparr>savings_goals :=
                [\<lparr>goal_id = 1, name = ''car'', target_amount = round_decimal 100 0,
                 current_amount = Finite 0 0\<rparr>,
                 \<lparr>goal_id = 2, name = ''trip'', target_amount = round_decimal 200 0,
                  current_amount = Finite 0 0\<rparr>,
                 \<lparr>goal_id = 3, name = ''boat'', target_amount = round_decimal 400 0,
                  current_amount = Finite 0 0\<rparr>]\<rparr>)"
    using add_savings_goal_id_is_count_plus_one
      [of "''boat''" "round_decimal 400 0"
          "three_goals\<lparr>savings_goals :=
             filter (\<lambda>g. goal_id g \<noteq> 3) (savings_goals three_goals)\<rparr>"
          "PyFloat (round_decimal 400 0)", THEN conjunct1]
    by (simp add: three_goals_def)
  note again = add_savings_goal_id_is_count_plus_one
      [of "''boat''" "round_decimal 400 0" three_goals "PyFloat (round_decimal 400 0)", THEN conjunct2, THEN conjunct2,
       THEN mp, OF ids, THEN spec, THEN spec, THEN mp, OF res]
  from ids res again show ?thesis by (intro conjI)
qed

subsection \<open>Registration\<close>



subsection \<open>Deleting a category\<close>

text \<open>
  Claim C8. Deleting a category of the list, once confirmed, sets the category of every
  transaction that had it to \<open>Other\<close> and leaves the other transactions as they were,
  keeps exactly the budgets of other categories, and removes the category from the
  category list (its first occurrence; all of it when the list has no duplicates).
  Nothing else of the user changes.
\<close>

theorem delete_category_cascades:
  assumes "c \<in> set (categories u)" and "map lower_char confirm = ''y''"
  shows "transactions (delete_category c confirm u)
           = map (\<lambda>t. if category t = c then t\<lparr>category := ''Other''\<rparr> else t) (transactions u)
         \<and> budgets (delete_category c confirm u)
             = filter (\<lambda>b. budget_category b \<noteq> c) (budgets u)
         \<and> categories (delete_category c confirm u) = remove1 c (categories u)
         \<and> (distinct (categories u) \<longrightarrow> c \<notin> set (categories (delete_category c confirm u)))
         \<and> username (delete_category c confirm u) = username u
         \<and> password (delete_category c confirm u) = password u
         \<and> savings_goals (delete_category c confirm u) = savings_goals u"
  using assms by (simp add: delete_category_def)

theorem delete_category_cascades_witness:
  "''Bills'' \<in> set (categories bills_user) \<and> map lower_char ''Y'' = ''y''
   \<and> distinct (categories bills_user)
   \<and> delete_category ''Bills'' ''Y'' bills_user
       = sample_user
          \<lparr>transactions :=
             [\<lparr>transaction_id = 1, date = ''2024-01-01'', amount = round_decimal 40 0,
              category = ''Other'',
               type = ''expense'', description = ''power''\<rparr>,
              \<lparr>transaction_id = 2, date = ''2024-01-02'', amount = round_decimal 15 0,
               category = ''Groceries'',
               type = ''expense'', description = ''bread''\<rparr>],
           budgets :=
             [\<lparr>budget_id = 2, budget_category = ''Groceries'', limit = round_decimal 50 0,
              period = ''weekly''\<rparr>],
           categories :=
             [''Groceries'', ''Entertainment'', ''Transportation'', ''Housing'', ''Other'']\<rparr>"
proof -
  have c: "''Bills'' \<in> set (categories bills_user)"
    by (simp add: bills_user_def sample_user_def User_def default_categories_def)
  have y: "map lower_char ''Y'' = ''y''" by (simp add: lower_char_def)
  have d: "distinct (categories bills_user)"
    by (simp add: bills_user_def sample_user_def User_def default_categories_def)
  show ?thesis
    using delete_category_cascades [OF c y] c y d
    by (simp add: bills_user_def sample_user_def User_def default_categories_def
        delete_category_def)
qed

subsection \<open>The audit log\<close>

text \<open>
  Claim C9, as amended. A call of \<open>add_transaction\<close> that returns a transaction appends
  exactly one line to the log,
  \<open><timestamp> - add_transaction: <date> $<amount> - <category>\<close> and a newline, with the
  19 characters of \<open>YYYY-MM-DD HH:MM:SS\<close> as timestamp and the date, amount and category
  arguments as passed; a call that returns \<open>None\<close> leaves the log and the user as they
  were.
\<close>

theorem audit_line_ends_with_category:
  "(\<forall>t u' l'. add_transaction now d a c ty ds (u, l) = Inr (Some t, u', l') \<longrightarrow>
      l' = l @ [strftime now @ '' - add_transaction: '' @ d @ '' $'' @ a @ '' - '' @ c
                @ [CHR 0x0A]])
   \<and> (\<forall>u' l'. add_transaction now d a c ty ds (u, l) = Inr (None, u', l') \<longrightarrow> l' = l \<and> u' = u)
   \<and> length (strftime now) = 19"
  by (auto simp add: add_transaction_unfold strftime_def pad2_def pad4_def
      split: sum.splits py_error.splits if_splits)

theorem audit_line_ends_with_category_witness:
  "add_transaction sample_clock ''20240115'' ''50'' ''Bills'' ''expense'' ''rent'' (sample_user, [])
     = Inr (Some \<lparr>transaction_id = 1, date = ''20240115'', amount = round_decimal 50 0,
      category = ''Bills'',
                  type = ''expense'', description = ''rent''\<rparr>,
            sample_user\<lparr>transactions :=
              [\<lparr>transaction_id = 1, date = ''20240115'', amount = round_decimal 50 0,
               category = ''Bills'',
                type = ''expense'', description = ''rent''\<rparr>]\<rparr>,
            [''2024-03-05 10:20:30 - add_transaction: 20240115 $50 - Bills'' @ [CHR 0x0A]])
   \<and> add_transaction sample_clock ''2024-01-15'' ''50'' ''Bills'' ''expense'' ''rent''
        (sample_user, []) = Inr (None, sample_user, [])"
  using audit_line_ends_with_category
    [of sample_clock "''20240115''" "''50''" "''Bills''" "''expense''" "''rent''" sample_user "[]"]
    audit_line_ends_with_category
    [of sample_clock "''2024-01-15''" "''50''" "''Bills''" "''expense''" "''rent''" sample_user "[]"]
  by (simp add: add_transaction_unfold float_iso_date float_compact_date float_fifty
      decimal_50 shl_def strftime_sample sample_user_def User_def)

text \<open>
  Claim C9 as stated fails: for the description \<open>rent\<close> and the category \<open>Bills\<close> the line
  written ends with \<open>Bills\<close>, so it is not the line of the specification, which ends
  with the description.
\<close>

theorem audit_line_not_description:
  "add_transaction sample_clock ''20240115'' ''50'' ''Bills'' ''expense'' ''rent'' (sample_user, [])
     = Inr (Some \<lparr>transaction_id = 1, date = ''20240115'', amount = round_decimal 50 0,
      category = ''Bills'',
                  type = ''expense'', description = ''rent''\<rparr>,
            sample_user\<lparr>transactions :=
              [\<lparr>transaction_id = 1, date = ''20240115'', amount = round_decimal 50 0,
               category = ''Bills'',
                type = ''expense'', description = ''rent''\<rparr>]\<rparr>,
            [''2024-03-05 10:20:30 - add_transaction: 20240115 $50 - Bills'' @ [CHR 0x0A]])
   \<and> ''2024-03-05 10:20:30 - add_transaction: 20240115 $50 - Bills'' @ [CHR 0x0A]
       \<noteq> spec_log_line (strftime sample_clock) ''20240115'' ''50'' ''rent''"
  by (simp add: add_transaction_unfold float_compact_date float_fifty decimal_50 shl_def
      strftime_sample sample_user_def User_def spec_log_line_def)

subsection \<open>Adding funds\<close>

text \<open>
  Claim C10, as amended. \<open>add_funds\<close> checks nothing: for every float \<open>x\<close>, positive or
  not, integral or not, the current amount becomes the float sum of the old one and
  \<open>x\<close>; an int is first converted by \<open>float\<close>, which raises \<open>OverflowError\<close> when it is too
  large. A negative \<open>x\<close> can lower the amount and drive it below zero: a goal holding
  2 holds -3 after -5 is added.
\<close>

theorem add_funds_unvalidated:
  "add_funds (PyFloat x) g = Inr (g\<lparr>current_amount := fadd (current_amount g) x\<rparr>)
   \<and> add_funds (PyInt i) g
       = (case float_int i of
            Inl e \<Rightarrow> Inl e
          | Inr y \<Rightarrow> Inr (g\<lparr>current_amount := fadd (current_amount g) y\<rparr>))
   \<and> add_funds (PyFloat (round_decimal (- 5) 0)) car_goal
       = Inr (car_goal\<lparr>current_amount := round_decimal (- 3) 0\<rparr>)
   \<and> flt (round_decimal (- 3) 0) (current_amount car_goal)
   \<and> flt (round_decimal (- 3) 0) (Finite 0 0)"
  by (simp add: add_funds_def car_goal_def decimal_minus_5 decimal_minus_3 decimal_2 flt_def)
    (simp add: round_eval)

text \<open>
  Claim C10 as stated fails where it says that a negative amount decreases the current
  amount: the floats next to \<open>1e17\<close> are 16 apart, so adding -1 to a goal holding \<open>1e17\<close>
  leaves the goal as it was.
\<close>

theorem add_funds_negative_amount_absorbed:
  "flt (round_decimal (- 1) 0) (Finite 0 0)
   \<and> add_funds (PyFloat (round_decimal (- 1) 0)) big_goal = Inr big_goal"
  by (simp add: add_funds_def big_goal_def decimal_minus_1 decimal_1e17 flt_def)
    (simp add: round_eval)

end
